theory Spec2Isabelle
  imports Complex_Main "HOL-Library.Monad_Syntax"
begin

section \<open>Data model (internal/models/models.go)\<close>

text \<open>
  A Go \<open>float64\<close> is a finite number, NaN or an infinity; a finite one is modelled by a
  \<open>real\<close> (rounding and the sign of zero are not modelled). Go's \<open>int\<close> is modelled
  as \<open>int\<close> (no arithmetic is done on it), a slice as a list (a nil slice and an empty
  slice are both \<open>[]\<close>) and a \<open>time.Time\<close> by its RFC 3339 text, which is what the JSON
  codec writes and reads (the zero time is \<open>0001-01-01T00:00:00Z\<close>; a time that has no
  such text, with a year outside 0 to 9999, is outside the model).
\<close>

datatype float64 =
    Finite real
  | NaN
  | PosInf
  | NegInf

fun isFinite :: "float64 \<Rightarrow> bool" where
  "isFinite (Finite x) = True"
| "isFinite _ = False"

type_synonym Time = string

definition zeroTime :: Time where
  "zeroTime = ''0001-01-01T00:00:00Z''"

record GeoPoint =
  Lat :: float64
  Lon :: float64

record Demographics =
  AgeGroup :: string
  AverageIncome :: float64
  Interests :: "string list"
  PopulationDensity :: float64

text \<open>
  The fields \<open>Region\<close> and \<open>City\<close> of \<open>Location\<close> are written \<open>LocRegion\<close> and
  \<open>LocCity\<close>, since \<open>RecommendRequest\<close> has fields of the same names; the field
  \<open>Demographics\<close> is written \<open>LocDemographics\<close>.
\<close>

record Location =
  ID :: string
  Name :: string
  Address :: string
  Coordinates :: GeoPoint
  LocRegion :: string
  LocCity :: string
  Description :: string
  BusinessTypesSuitable :: "string list"
  TrafficScore :: float64
  CompetitionDensity :: float64
  LocDemographics :: Demographics
  Embedding :: "float64 list"
  CreatedAt :: Time
  UpdatedAt :: Time
  Score :: float64

record RecommendRequest =
  Region :: string
  City :: string
  BusinessType :: string
  Limit :: int

record RecommendResponse =
  Locations :: "Location list"
  Total :: int

section \<open>JSON values\<close>

text \<open>
  A \<open>map[string]interface{}\<close> literal is a \<open>JObject\<close> holding its entries in the order
  of the source text; a \<open>[]map[string]interface{}\<close> is a \<open>JArray\<close>. JSON has one
  number type, so both Go's \<open>0\<close> and \<open>7.0\<close> are a \<open>JNumber\<close>.
\<close>

datatype json =
    JNull
  | JBool bool
  | JNumber real
  | JString string
  | JArray "json list"
  | JObject "(string \<times> json) list"

text \<open>Reading a key of an object; anything else has no keys.\<close>

fun member :: "json \<Rightarrow> string \<Rightarrow> json option" where
  "member (JObject kvs) k = map_of kvs k"
| "member _ k = None"

fun elements :: "json \<Rightarrow> json list" where
  "elements (JArray xs) = xs"
| "elements _ = []"

fun path :: "json \<Rightarrow> string list \<Rightarrow> json option" where
  "path j [] = Some j"
| "path j (k # ks) = (case member j k of None \<Rightarrow> None | Some j' \<Rightarrow> path j' ks)"

section \<open>The query builder (internal/storage/elasticsearch.go, buildRecommendQuery)\<close>

text \<open>
  The Go function receives a pointer to the request, returns the query and, at its end,
  writes the default limit into the request it was given. The model returns the query
  together with the request as the caller sees it after the call.
\<close>

definition buildRecommendQuery :: "RecommendRequest \<Rightarrow> json \<times> RecommendRequest" where
  "buildRecommendQuery req =
    (let mustClauses = [];
         shouldClauses = [];
         mustClauses =
           (if Region req \<noteq> ''''
            then mustClauses @ [JObject [(''term'', JObject [(''region'', JString (Region req))])]]
            else mustClauses);
         mustClauses =
           (if City req \<noteq> ''''
            then mustClauses @ [JObject [(''term'', JObject [(''city'', JString (City req))])]]
            else mustClauses);
         mustClauses =
           (if BusinessType req \<noteq> ''''
            then mustClauses @
              [JObject [(''term'', JObject [(''business_types_suitable'', JString (BusinessType req))])]]
            else mustClauses);
         shouldClauses = shouldClauses @
           [JObject [(''range'', JObject [(''traffic_score'',
              JObject [(''gte'', JNumber 7), (''boost'', JNumber 2)])])]];
         shouldClauses = shouldClauses @
           [JObject [(''range'', JObject [(''competition_density'',
              JObject [(''lte'', JNumber 3), (''boost'', JNumber (3 / 2))])])]];
         query = JObject
           [(''query'', JObject [(''bool'', JObject
               [(''must'', JArray mustClauses),
                (''should'', JArray shouldClauses),
                (''minimum_should_match'', JNumber 0)])]),
            (''sort'', JArray
               [JObject [(''_score'', JObject [(''order'', JString ''desc'')])],
                JObject [(''traffic_score'', JObject [(''order'', JString ''desc'')])],
                JObject [(''competition_density'', JObject [(''order'', JString ''asc'')])]])];
         req = (if Limit req = 0 then req\<lparr>Limit := 20\<rparr> else req)
     in (query, req))"

text \<open>The parts of a built query that the properties below speak about.\<close>

definition mustOf :: "json \<Rightarrow> json list" where
  "mustOf q = (case path q [''query'', ''bool'', ''must''] of None \<Rightarrow> [] | Some a \<Rightarrow> elements a)"

definition shouldOf :: "json \<Rightarrow> json list" where
  "shouldOf q = (case path q [''query'', ''bool'', ''should''] of None \<Rightarrow> [] | Some a \<Rightarrow> elements a)"

definition termClause :: "string \<Rightarrow> string \<Rightarrow> json" where
  "termClause field v = JObject [(''term'', JObject [(field, JString v)])]"

text \<open>The fields a term clause binds: the keys of the object under \<open>term\<close>.\<close>

fun termFields :: "json \<Rightarrow> string list" where
  "termFields c = (case member c ''term'' of Some (JObject kvs) \<Rightarrow> map fst kvs | _ \<Rightarrow> [])"

definition rangeBoost :: "string \<Rightarrow> string \<Rightarrow> real \<Rightarrow> real \<Rightarrow> json" where
  "rangeBoost field bound v w =
     JObject [(''range'', JObject [(field, JObject [(bound, JNumber v), (''boost'', JNumber w)])])]"

section \<open>Go errors and formatting\<close>

text \<open>
  An error made by \<open>fmt.Errorf\<close> is a message; with the verb \<open>%w\<close> it also keeps the
  error it wraps. The code never gives an error a kind: all a caller can read is the
  message (\<open>err.Error()\<close>) and the wrapped error.
\<close>

datatype go_error =
    ErrorString string
  | WrapError string go_error

fun Error :: "go_error \<Rightarrow> string" where
  "Error (ErrorString msg) = msg"
| "Error (WrapError msg err) = msg"

definition Errorf :: "string \<Rightarrow> go_error" where
  "Errorf msg = ErrorString msg"

text \<open>\<open>fmt.Errorf(prefix + "%w", err)\<close>.\<close>

definition ErrorfW :: "string \<Rightarrow> go_error \<Rightarrow> go_error" where
  "ErrorfW prefix err = WrapError (prefix @ Error err) err"

text \<open>The verb \<open>%d\<close>.\<close>

fun digits :: "nat \<Rightarrow> string" where
  "digits n =
     (if n < 10 then [char_of (48 + n)]
      else digits (n div 10) @ [char_of (48 + n mod 10)])"

declare digits.simps [simp del]

definition itoa :: "int \<Rightarrow> string" where
  "itoa i = (if i < 0 then CHR ''-'' # digits (nat (- i)) else digits (nat i))"

section \<open>JSON encoding and decoding of the model types\<close>

text \<open>
  \<open>json.Marshal\<close> follows the struct tags of models.go: every field is written under
  its tag, except that a field tagged \<open>omitempty\<close> is left out when it holds its zero
  value (\<open>embedding\<close> when empty, \<open>score\<close> when \<open>0\<close>). A \<open>float64\<close> that is NaN or
  infinite has no JSON form: encoding a value that holds one fails with an
  \<open>UnsupportedValueError\<close>, at the first such field in the order of the struct.
\<close>

fun formatNonFinite :: "float64 \<Rightarrow> string" where
  "formatNonFinite NaN = ''NaN''"
| "formatNonFinite PosInf = ''+Inf''"
| "formatNonFinite NegInf = ''-Inf''"
| "formatNonFinite (Finite x) = ''''"

definition UnsupportedValueError :: "float64 \<Rightarrow> go_error" where
  "UnsupportedValueError f = ErrorString (''json: unsupported value: '' @ formatNonFinite f)"

text \<open>Going on after a step that may have failed, as \<open>if err != nil { return err }\<close> does.\<close>

definition bindE :: "go_error + 'a \<Rightarrow> ('a \<Rightarrow> go_error + 'b) \<Rightarrow> go_error + 'b" where
  "bindE m f = (case m of Inl err \<Rightarrow> Inl err | Inr x \<Rightarrow> f x)"

fun marshalFloat :: "float64 \<Rightarrow> go_error + json" where
  "marshalFloat (Finite x) = Inr (JNumber x)"
| "marshalFloat NaN = Inl (UnsupportedValueError NaN)"
| "marshalFloat PosInf = Inl (UnsupportedValueError PosInf)"
| "marshalFloat NegInf = Inl (UnsupportedValueError NegInf)"

fun marshalFloats :: "float64 list \<Rightarrow> go_error + json list" where
  "marshalFloats [] = Inr []"
| "marshalFloats (f # fs) =
     bindE (marshalFloat f) (\<lambda>j. bindE (marshalFloats fs) (\<lambda>js. Inr (j # js)))"

definition marshalGeoPoint :: "GeoPoint \<Rightarrow> go_error + json" where
  "marshalGeoPoint g =
     bindE (marshalFloat (Lat g)) (\<lambda>la.
     bindE (marshalFloat (Lon g)) (\<lambda>lo.
     Inr (JObject [(''lat'', la), (''lon'', lo)])))"

definition marshalDemographics :: "Demographics \<Rightarrow> go_error + json" where
  "marshalDemographics d =
     bindE (marshalFloat (AverageIncome d)) (\<lambda>inc.
     bindE (marshalFloat (PopulationDensity d)) (\<lambda>p.
     Inr (JObject
       [(''age_group'', JString (AgeGroup d)),
        (''average_income'', inc),
        (''interests'', JArray (map JString (Interests d))),
        (''population_density'', p)])))"

definition marshalLocation :: "Location \<Rightarrow> go_error + json" where
  "marshalLocation l =
     bindE (marshalGeoPoint (Coordinates l)) (\<lambda>g.
     bindE (marshalFloat (TrafficScore l)) (\<lambda>t.
     bindE (marshalFloat (CompetitionDensity l)) (\<lambda>c.
     bindE (marshalDemographics (LocDemographics l)) (\<lambda>d.
     bindE (if Embedding l = [] then Inr []
            else bindE (marshalFloats (Embedding l)) (\<lambda>e. Inr [(''embedding'', JArray e)])) (\<lambda>emb.
     bindE (if Score l = Finite 0 then Inr []
            else bindE (marshalFloat (Score l)) (\<lambda>s. Inr [(''score'', s)])) (\<lambda>sc.
     Inr (JObject
       ([(''id'', JString (ID l)),
         (''name'', JString (Name l)),
         (''address'', JString (Address l)),
         (''coordinates'', g),
         (''region'', JString (LocRegion l)),
         (''city'', JString (LocCity l)),
         (''description'', JString (Description l)),
         (''business_types_suitable'', JArray (map JString (BusinessTypesSuitable l))),
         (''traffic_score'', t),
         (''competition_density'', c),
         (''demographics'', d)]
        @ emb
        @ [(''created_at'', JString (CreatedAt l)),
           (''updated_at'', JString (UpdatedAt l))]
        @ sc))))))))"

fun marshalLocations :: "Location list \<Rightarrow> go_error + json list" where
  "marshalLocations [] = Inr []"
| "marshalLocations (l # ls) =
     bindE (marshalLocation l) (\<lambda>j. bindE (marshalLocations ls) (\<lambda>js. Inr (j # js)))"

definition marshalRecommendResponse :: "RecommendResponse \<Rightarrow> go_error + json" where
  "marshalRecommendResponse r =
     bindE (marshalLocations (Locations r)) (\<lambda>js.
     Inr (JObject [(''locations'', JArray js), (''total'', JNumber (of_int (Total r)))]))"

text \<open>The locations that can be encoded: those whose every \<open>float64\<close> is finite.\<close>

definition encodable :: "Location \<Rightarrow> bool" where
  "encodable l =
     (isFinite (Lat (Coordinates l)) \<and> isFinite (Lon (Coordinates l))
      \<and> isFinite (TrafficScore l) \<and> isFinite (CompetitionDensity l)
      \<and> isFinite (AverageIncome (LocDemographics l))
      \<and> isFinite (PopulationDensity (LocDemographics l))
      \<and> list_all isFinite (Embedding l) \<and> isFinite (Score l))"

text \<open>
  Decoding into a fresh struct: a key that is absent or \<open>null\<close> leaves the field at its
  zero value, a value of the wrong JSON type is an error (\<open>None\<close>), unknown keys are
  ignored. Objects are taken to have distinct keys, and any text is accepted as a time.
  A JSON number is finite.
\<close>

fun asString :: "json option \<Rightarrow> string option" where
  "asString None = Some ''''"
| "asString (Some JNull) = Some ''''"
| "asString (Some (JString s)) = Some s"
| "asString (Some _) = None"

fun asFloat :: "json option \<Rightarrow> float64 option" where
  "asFloat None = Some (Finite 0)"
| "asFloat (Some JNull) = Some (Finite 0)"
| "asFloat (Some (JNumber x)) = Some (Finite x)"
| "asFloat (Some _) = None"

fun asInt :: "json option \<Rightarrow> int option" where
  "asInt None = Some 0"
| "asInt (Some JNull) = Some 0"
| "asInt (Some (JNumber x)) = (if of_int \<lfloor>x\<rfloor> = x then Some \<lfloor>x\<rfloor> else None)"
| "asInt (Some _) = None"

fun asBool :: "json option \<Rightarrow> bool option" where
  "asBool None = Some False"
| "asBool (Some JNull) = Some False"
| "asBool (Some (JBool b)) = Some b"
| "asBool (Some _) = None"

fun asTime :: "json option \<Rightarrow> Time option" where
  "asTime None = Some zeroTime"
| "asTime (Some JNull) = Some zeroTime"
| "asTime (Some (JString s)) = Some s"
| "asTime (Some _) = None"

fun asStrings :: "json option \<Rightarrow> string list option" where
  "asStrings None = Some []"
| "asStrings (Some JNull) = Some []"
| "asStrings (Some (JArray xs)) = those (map (\<lambda>x. asString (Some x)) xs)"
| "asStrings (Some _) = None"

fun asFloats :: "json option \<Rightarrow> float64 list option" where
  "asFloats None = Some []"
| "asFloats (Some JNull) = Some []"
| "asFloats (Some (JArray xs)) = those (map (\<lambda>x. asFloat (Some x)) xs)"
| "asFloats (Some _) = None"

definition zeroGeoPoint :: GeoPoint where
  "zeroGeoPoint = \<lparr>Lat = Finite 0, Lon = Finite 0\<rparr>"

definition unmarshalGeoPointFields :: "(string \<times> json) list \<Rightarrow> GeoPoint option" where
  "unmarshalGeoPointFields kvs = do {
     la \<leftarrow> asFloat (map_of kvs ''lat'');
     lo \<leftarrow> asFloat (map_of kvs ''lon'');
     Some \<lparr>Lat = la, Lon = lo\<rparr>
   }"

fun unmarshalGeoPoint :: "json option \<Rightarrow> GeoPoint option" where
  "unmarshalGeoPoint None = Some zeroGeoPoint"
| "unmarshalGeoPoint (Some JNull) = Some zeroGeoPoint"
| "unmarshalGeoPoint (Some (JObject kvs)) = unmarshalGeoPointFields kvs"
| "unmarshalGeoPoint (Some _) = None"

definition zeroDemographics :: Demographics where
  "zeroDemographics =
     \<lparr>AgeGroup = '''', AverageIncome = Finite 0, Interests = [], PopulationDensity = Finite 0\<rparr>"

definition unmarshalDemographicsFields :: "(string \<times> json) list \<Rightarrow> Demographics option" where
  "unmarshalDemographicsFields kvs = do {
     a \<leftarrow> asString (map_of kvs ''age_group'');
     inc \<leftarrow> asFloat (map_of kvs ''average_income'');
     ins \<leftarrow> asStrings (map_of kvs ''interests'');
     p \<leftarrow> asFloat (map_of kvs ''population_density'');
     Some \<lparr>AgeGroup = a, AverageIncome = inc, Interests = ins, PopulationDensity = p\<rparr>
   }"

fun unmarshalDemographics :: "json option \<Rightarrow> Demographics option" where
  "unmarshalDemographics None = Some zeroDemographics"
| "unmarshalDemographics (Some JNull) = Some zeroDemographics"
| "unmarshalDemographics (Some (JObject kvs)) = unmarshalDemographicsFields kvs"
| "unmarshalDemographics (Some _) = None"

definition zeroLocation :: Location where
  "zeroLocation =
     \<lparr>ID = '''', Name = '''', Address = '''', Coordinates = zeroGeoPoint,
      LocRegion = '''', LocCity = '''', Description = '''', BusinessTypesSuitable = [],
      TrafficScore = Finite 0, CompetitionDensity = Finite 0, LocDemographics = zeroDemographics,
      Embedding = [], CreatedAt = zeroTime, UpdatedAt = zeroTime, Score = Finite 0\<rparr>"

definition unmarshalLocationFields :: "(string \<times> json) list \<Rightarrow> Location option" where
  "unmarshalLocationFields kvs = do {
     i \<leftarrow> asString (map_of kvs ''id'');
     n \<leftarrow> asString (map_of kvs ''name'');
     a \<leftarrow> asString (map_of kvs ''address'');
     g \<leftarrow> unmarshalGeoPoint (map_of kvs ''coordinates'');
     r \<leftarrow> asString (map_of kvs ''region'');
     c \<leftarrow> asString (map_of kvs ''city'');
     d \<leftarrow> asString (map_of kvs ''description'');
     bs \<leftarrow> asStrings (map_of kvs ''business_types_suitable'');
     t \<leftarrow> asFloat (map_of kvs ''traffic_score'');
     cd \<leftarrow> asFloat (map_of kvs ''competition_density'');
     dm \<leftarrow> unmarshalDemographics (map_of kvs ''demographics'');
     e \<leftarrow> asFloats (map_of kvs ''embedding'');
     ca \<leftarrow> asTime (map_of kvs ''created_at'');
     ua \<leftarrow> asTime (map_of kvs ''updated_at'');
     s \<leftarrow> asFloat (map_of kvs ''score'');
     Some \<lparr>ID = i, Name = n, Address = a, Coordinates = g, LocRegion = r, LocCity = c,
            Description = d, BusinessTypesSuitable = bs, TrafficScore = t,
            CompetitionDensity = cd, LocDemographics = dm, Embedding = e,
            CreatedAt = ca, UpdatedAt = ua, Score = s\<rparr>
   }"

fun unmarshalLocation :: "json option \<Rightarrow> Location option" where
  "unmarshalLocation None = Some zeroLocation"
| "unmarshalLocation (Some JNull) = Some zeroLocation"
| "unmarshalLocation (Some (JObject kvs)) = unmarshalLocationFields kvs"
| "unmarshalLocation (Some _) = None"

section \<open>The search engine as seen by the client\<close>

text \<open>
  The three requests the code sends. A URL made by \<open>fmt.Sprintf\<close> is kept as its parts
  (base URL, index, document identifier or \<open>size\<close> parameter), not as text.
  \<^item> \<open>IndexRequest index documentID body refresh\<close>: the \<open>esapi.IndexRequest\<close>;
  \<^item> \<open>GetDocument baseURL index id\<close>: \<open>GET baseURL/index/_doc/id\<close>;
  \<^item> \<open>SearchDocuments baseURL index size query\<close>: \<open>POST baseURL/index/_search?size=size\<close>
    with the query as its body.
\<close>

datatype es_request =
    IndexRequest string string json string
  | GetDocument string string string
  | SearchDocuments string string int json

text \<open>
  A response carries its status, the text of its body (read by \<open>io.ReadAll\<close> for an
  error message) and what parsing that text as JSON gives (a syntax error or a value).
\<close>

record Response =
  StatusCode :: int
  BodyText :: string
  BodyJSON :: "go_error + json"

text \<open>
  What lies outside the repository: building a request may fail, and sending one
  returns a transport error or a response and may change the engine's state \<open>'s\<close>.
\<close>

record 's transport =
  NewRequest :: "es_request \<Rightarrow> go_error option"
  Do :: "es_request \<Rightarrow> 's \<Rightarrow> (go_error + Response) \<times> 's"

text \<open>The world: the engine's state and the requests sent to it so far, oldest first.\<close>

record 's world =
  engine :: 's
  calls :: "es_request list"

definition httpDo ::
  "'s transport \<Rightarrow> es_request \<Rightarrow> 's world \<Rightarrow> (go_error + Response) \<times> 's world" where
  "httpDo T rq w =
     (case Do T rq (engine w) of
        (r, s') \<Rightarrow> (r, \<lparr>engine = s', calls = calls w @ [rq]\<rparr>))"


subsection \<open>Decoding the engine's answers\<close>

text \<open>The anonymous struct that \<open>GetLocation\<close> decodes into.\<close>

record GetResult =
  Found :: bool
  Source :: Location

definition unmarshalGetResultFields :: "(string \<times> json) list \<Rightarrow> GetResult option" where
  "unmarshalGetResultFields kvs = do {
     f \<leftarrow> asBool (map_of kvs ''found'');
     s \<leftarrow> unmarshalLocation (map_of kvs ''_source'');
     Some \<lparr>Found = f, Source = s\<rparr>
   }"

fun unmarshalGetResult :: "json \<Rightarrow> GetResult option" where
  "unmarshalGetResult JNull = Some \<lparr>Found = False, Source = zeroLocation\<rparr>"
| "unmarshalGetResult (JObject kvs) = unmarshalGetResultFields kvs"
| "unmarshalGetResult _ = None"

text \<open>The error of a value that does not fit the Go type it is decoded into.\<close>

definition UnmarshalTypeError :: go_error where
  "UnmarshalTypeError = ErrorString ''json: cannot unmarshal value into Go value''"

definition decodeGetResult :: "go_error + json \<Rightarrow> go_error + GetResult" where
  "decodeGetResult b =
     (case b of
        Inl err \<Rightarrow> Inl err
      | Inr j \<Rightarrow> (case unmarshalGetResult j of None \<Rightarrow> Inl UnmarshalTypeError | Some r \<Rightarrow> Inr r))"

text \<open>The anonymous struct that \<open>RecommendLocations\<close> decodes into.\<close>

record SearchHit =
  HitSource :: Location
  HitScore :: float64

record SearchResult =
  TotalValue :: int
  Hits :: "SearchHit list"

definition unmarshalHitFields :: "(string \<times> json) list \<Rightarrow> SearchHit option" where
  "unmarshalHitFields kvs = do {
     s \<leftarrow> unmarshalLocation (map_of kvs ''_source'');
     sc \<leftarrow> asFloat (map_of kvs ''_score'');
     Some \<lparr>HitSource = s, HitScore = sc\<rparr>
   }"

fun unmarshalHit :: "json \<Rightarrow> SearchHit option" where
  "unmarshalHit JNull = Some \<lparr>HitSource = zeroLocation, HitScore = Finite 0\<rparr>"
| "unmarshalHit (JObject kvs) = unmarshalHitFields kvs"
| "unmarshalHit _ = None"

fun unmarshalHitList :: "json option \<Rightarrow> SearchHit list option" where
  "unmarshalHitList None = Some []"
| "unmarshalHitList (Some JNull) = Some []"
| "unmarshalHitList (Some (JArray xs)) = those (map unmarshalHit xs)"
| "unmarshalHitList (Some _) = None"

fun unmarshalTotal :: "json option \<Rightarrow> int option" where
  "unmarshalTotal None = Some 0"
| "unmarshalTotal (Some JNull) = Some 0"
| "unmarshalTotal (Some (JObject kvs)) = asInt (map_of kvs ''value'')"
| "unmarshalTotal (Some _) = None"

definition unmarshalHitsFields :: "(string \<times> json) list \<Rightarrow> SearchResult option" where
  "unmarshalHitsFields kvs = do {
     t \<leftarrow> unmarshalTotal (map_of kvs ''total'');
     hs \<leftarrow> unmarshalHitList (map_of kvs ''hits'');
     Some \<lparr>TotalValue = t, Hits = hs\<rparr>
   }"

fun unmarshalHits :: "json option \<Rightarrow> SearchResult option" where
  "unmarshalHits None = Some \<lparr>TotalValue = 0, Hits = []\<rparr>"
| "unmarshalHits (Some JNull) = Some \<lparr>TotalValue = 0, Hits = []\<rparr>"
| "unmarshalHits (Some (JObject kvs)) = unmarshalHitsFields kvs"
| "unmarshalHits (Some _) = None"

fun unmarshalSearchResult :: "json \<Rightarrow> SearchResult option" where
  "unmarshalSearchResult JNull = Some \<lparr>TotalValue = 0, Hits = []\<rparr>"
| "unmarshalSearchResult (JObject kvs) = unmarshalHits (map_of kvs ''hits'')"
| "unmarshalSearchResult _ = None"

definition decodeSearchResult :: "go_error + json \<Rightarrow> go_error + SearchResult" where
  "decodeSearchResult b =
     (case b of
        Inl err \<Rightarrow> Inl err
      | Inr j \<Rightarrow> (case unmarshalSearchResult j of None \<Rightarrow> Inl UnmarshalTypeError | Some r \<Rightarrow> Inr r))"

section \<open>The search index client (internal/storage/elasticsearch.go)\<close>

record ElasticsearchStorage =
  index :: string
  baseURL :: string


definition GetLocation ::
  "'s transport \<Rightarrow> ElasticsearchStorage \<Rightarrow> string \<Rightarrow> 's world \<Rightarrow> (go_error + Location) \<times> 's world" where
  "GetLocation T es docID w =
     (let req = GetDocument (baseURL es) (index es) docID
      in case NewRequest T req of
           Some err \<Rightarrow> (Inl (ErrorfW ''failed to create request: '' err), w)
         | None \<Rightarrow>
             (case httpDo T req w of
                (Inl err, w') \<Rightarrow> (Inl (ErrorfW ''failed to get location: '' err), w')
              | (Inr res, w') \<Rightarrow>
                  (if StatusCode res = 404 then (Inl (Errorf ''location not found''), w')
                   else if StatusCode res \<ge> 400
                   then (Inl (Errorf (''error getting location: status '' @ itoa (StatusCode res)
                                        @ '', body: '' @ BodyText res)), w')
                   else (case decodeGetResult (BodyJSON res) of
                           Inl err \<Rightarrow> (Inl (ErrorfW ''failed to decode response: '' err), w')
                         | Inr result \<Rightarrow>
                             (if \<not> Found result then (Inl (Errorf ''location not found''), w')
                              else (Inr (Source result), w'))))))"

text \<open>The loop over the hits: each hit's document, with the hit's score written into it.\<close>

definition collectLocations :: "SearchHit list \<Rightarrow> Location list" where
  "collectLocations hits =
     foldl (\<lambda>locations hit. locations @ [(HitSource hit)\<lparr>Score := HitScore hit\<rparr>]) [] hits"

text \<open>
  \<open>RecommendLocations\<close> builds the query first, which may write the default limit into
  the request, and formats the URL from the request afterwards. The request as the
  caller sees it after the call is the second component of the result. The query holds
  strings and finite numbers only, so encoding it cannot fail.
\<close>

definition RecommendLocations ::
  "'s transport \<Rightarrow> ElasticsearchStorage \<Rightarrow> RecommendRequest \<Rightarrow> 's world
     \<Rightarrow> (go_error + Location list) \<times> RecommendRequest \<times> 's world" where
  "RecommendLocations T es req0 w =
     (case buildRecommendQuery req0 of
        (query, req) \<Rightarrow>
          (let httpReq = SearchDocuments (baseURL es) (index es) (Limit req) query
           in case NewRequest T httpReq of
                Some err \<Rightarrow> (Inl (ErrorfW ''failed to create request: '' err), req, w)
              | None \<Rightarrow>
                  (case httpDo T httpReq w of
                     (Inl err, w') \<Rightarrow> (Inl (ErrorfW ''failed to search: '' err), req, w')
                   | (Inr res, w') \<Rightarrow>
                       (if StatusCode res \<ge> 400
                        then (Inl (Errorf (''error searching: status '' @ itoa (StatusCode res)
                                             @ '', body: '' @ BodyText res)), req, w')
                        else (case decodeSearchResult (BodyJSON res) of
                                Inl err \<Rightarrow> (Inl (ErrorfW ''failed to decode response: '' err), req, w')
                              | Inr result \<Rightarrow> (Inr (collectLocations (Hits result)), req, w'))))))"

section \<open>The HTTP handlers (internal/handlers/handlers.go)\<close>

text \<open>
  A handler's answer: \<open>http.Error\<close> with a message and a status, or the JSON encoding of
  a value with status 200. A handler gets the request's method and what it needs of the
  request: the result of decoding its body, or the \<open>id\<close> of its path. When the answer
  cannot be encoded, the handler answers 500.
\<close>

datatype 'a reply =
    HttpError string int
  | HttpJSON 'a

definition Handlers_RecommendLocations ::
  "'s transport \<Rightarrow> ElasticsearchStorage \<Rightarrow> string \<Rightarrow> go_error + RecommendRequest \<Rightarrow> 's world
     \<Rightarrow> RecommendResponse reply \<times> 's world" where
  "Handlers_RecommendLocations T es method body w =
     (if method \<noteq> ''POST'' then (HttpError ''Method not allowed'' 405, w)
      else case body of
             Inl err \<Rightarrow> (HttpError ''Invalid request body'' 400, w)
           | Inr req \<Rightarrow>
               (if Region req = '''' \<or> BusinessType req = ''''
                then (HttpError ''Region and business_type are required'' 400, w)
                else (let req = (if Limit req = 0 then req\<lparr>Limit := 20\<rparr> else req)
                      in case RecommendLocations T es req w of
                           (Inl err, req', w') \<Rightarrow> (HttpError ''Internal server error'' 500, w')
                         | (Inr locations, req', w') \<Rightarrow>
                             (let locationValues = map (\<lambda>loc. loc) locations;
                                  response = \<lparr>Locations = locationValues,
                                              Total = int (length locationValues)\<rparr>
                              in case marshalRecommendResponse response of
                                   Inl err \<Rightarrow> (HttpError ''Internal server error'' 500, w')
                                 | Inr encoded \<Rightarrow> (HttpJSON response, w')))))"


section \<open>Model transports\<close>

text \<open>
  Three transports for the environment: one that answers every request with a given
  response, one that fails every request with a given transport error, and a document
  store. The document store keeps, per index and non-empty identifier, the body last
  indexed there and gives it back under \<open>_source\<close> (the engine's index and get APIs; a
  write overwrites in place and is visible to the next read). An index request with an
  empty identifier is the engine's create-with-generated-identifier request: the store
  keeps the body apart, under no identifier a caller has chosen. A get request with an
  empty identifier addresses no document: the store refuses it with status 405. The
  document store does not search.
\<close>

definition answering :: "Response \<Rightarrow> unit transport" where
  "answering res = \<lparr>NewRequest = (\<lambda>rq. None), Do = (\<lambda>rq s. (Inr res, s))\<rparr>"

definition failing :: "go_error \<Rightarrow> unit transport" where
  "failing err = \<lparr>NewRequest = (\<lambda>rq. None), Do = (\<lambda>rq s. (Inl err, s))\<rparr>"





definition idle :: "unit world" where
  "idle = \<lparr>engine = (), calls = []\<rparr>"

definition locationsIndex :: ElasticsearchStorage where
  "locationsIndex = \<lparr>index = ''locations'', baseURL = ''http://localhost:9200''\<rparr>"

text \<open>The \<open>size\<close> parameters of the search requests among the requests sent.\<close>

fun searchSizes :: "es_request list \<Rightarrow> int list" where
  "searchSizes [] = []"
| "searchSizes (SearchDocuments base idx n query # rqs) = n # searchSizes rqs"
| "searchSizes (rq # rqs) = searchSizes rqs"

section \<open>The order of a result set\<close>

text \<open>Go's \<open><\<close> on \<open>float64\<close>: NaN is below nothing and nothing is below it.\<close>

fun less64 :: "float64 \<Rightarrow> float64 \<Rightarrow> bool" where
  "less64 (Finite x) (Finite y) = (x < y)"
| "less64 (Finite x) PosInf = True"
| "less64 NegInf (Finite y) = True"
| "less64 NegInf PosInf = True"
| "less64 _ _ = False"

text \<open>
  The order the sort of the query asks for: relevance score descending, then
  traffic-affinity score descending, then competition-density score ascending. It is
  stated for two neighbours of a result set, and for two neighbours among the hits of
  an engine's answer, where the relevance score is the hit's \<open>_score\<close>.
\<close>

definition rankedBefore :: "Location \<Rightarrow> Location \<Rightarrow> bool" where
  "rankedBefore a b =
     (less64 (Score b) (Score a)
      \<or> (Score a = Score b
          \<and> (less64 (TrafficScore b) (TrafficScore a)
              \<or> (TrafficScore a = TrafficScore b
                  \<and> (less64 (CompetitionDensity a) (CompetitionDensity b)
                      \<or> CompetitionDensity a = CompetitionDensity b)))))"

definition hitBefore :: "SearchHit \<Rightarrow> SearchHit \<Rightarrow> bool" where
  "hitBefore a b =
     (less64 (HitScore b) (HitScore a)
      \<or> (HitScore a = HitScore b
          \<and> (less64 (TrafficScore (HitSource b)) (TrafficScore (HitSource a))
              \<or> (TrafficScore (HitSource a) = TrafficScore (HitSource b)
                  \<and> (less64 (CompetitionDensity (HitSource a)) (CompetitionDensity (HitSource b))
                      \<or> CompetitionDensity (HitSource a) = CompetitionDensity (HitSource b))))))"

section \<open>Example values\<close>

definition cafeInMoscow :: RecommendRequest where
  "cafeInMoscow = \<lparr>Region = ''Moscow'', City = '''', BusinessType = ''cafe'', Limit = 5\<rparr>"

definition hitA :: json where
  "hitA = JObject
     [(''_score'', JNumber 3),
      (''_source'', JObject [(''id'', JString ''a''), (''traffic_score'', JNumber 9),
                             (''competition_density'', JNumber 2)])]"

definition hitB :: json where
  "hitB = JObject
     [(''_score'', JNumber 3),
      (''_source'', JObject [(''id'', JString ''b''), (''traffic_score'', JNumber 9),
                             (''competition_density'', JNumber 4)])]"

text \<open>A search answer that reports eight matching documents and carries two hits.\<close>

definition twoHits :: Response where
  "twoHits =
     \<lparr>StatusCode = 200, BodyText = '''',
      BodyJSON = Inr (JObject [(''hits'', JObject
        [(''total'', JObject [(''value'', JNumber 8)]), (''hits'', JArray [hitA, hitB])])])\<rparr>"

definition locA :: Location where
  "locA = zeroLocation\<lparr>ID := ''a'', TrafficScore := Finite 9, CompetitionDensity := Finite 2\<rparr>"

definition locB :: Location where
  "locB = zeroLocation\<lparr>ID := ''b'', TrafficScore := Finite 9, CompetitionDensity := Finite 4\<rparr>"

definition twoHitsResult :: SearchResult where
  "twoHitsResult =
     \<lparr>TotalValue = 8,
      Hits = [\<lparr>HitSource = locA, HitScore = Finite 3\<rparr>, \<lparr>HitSource = locB, HitScore = Finite 3\<rparr>]\<rparr>"

text \<open>A search answer whose two hits are the same documents with scores 1 and then 7.\<close>

definition unsortedHits :: Response where
  "unsortedHits =
     \<lparr>StatusCode = 200, BodyText = '''',
      BodyJSON = Inr (JObject [(''hits'', JObject
        [(''total'', JObject [(''value'', JNumber 2)]),
         (''hits'', JArray
            [JObject [(''_score'', JNumber 1), (''_source'', JObject [(''id'', JString ''a'')])],
             JObject [(''_score'', JNumber 7), (''_source'', JObject [(''id'', JString ''b'')])]])])])\<rparr>"

definition unsortedHitsResult :: SearchResult where
  "unsortedHitsResult =
     \<lparr>TotalValue = 2,
      Hits = [\<lparr>HitSource = zeroLocation\<lparr>ID := ''a''\<rparr>, HitScore = Finite 1\<rparr>,
              \<lparr>HitSource = zeroLocation\<lparr>ID := ''b''\<rparr>, HitScore = Finite 7\<rparr>]\<rparr>"

text \<open>A get answer with a success status whose body says the document was not found.\<close>

definition notFoundBody :: Response where
  "notFoundBody =
     \<lparr>StatusCode = 200, BodyText = '''', BodyJSON = Inr (JObject [(''found'', JBool False)])\<rparr>"

definition missing :: Response where
  "missing = \<lparr>StatusCode = 404, BodyText = '''', BodyJSON = Inr (JObject [(''found'', JBool False)])\<rparr>"

definition connectionRefused :: go_error where
  "connectionRefused = ErrorString ''dial tcp 127.0.0.1:9200: connect: connection refused''"



section \<open>Helper lemmas\<close>

lemma must_of_build:
  "mustOf (fst (buildRecommendQuery req)) =
     (if Region req \<noteq> '''' then [termClause ''region'' (Region req)] else []) @
     (if City req \<noteq> '''' then [termClause ''city'' (City req)] else []) @
     (if BusinessType req \<noteq> ''''
      then [termClause ''business_types_suitable'' (BusinessType req)] else [])"
  by (simp add: buildRecommendQuery_def mustOf_def termClause_def Let_def)

lemma bindE_Inr [simp]: "bindE (Inr x) f = f x"
  by (simp add: bindE_def)

lemma bindE_Inl [simp]: "bindE (Inl err) f = Inl err"
  by (simp add: bindE_def)


lemma isFinite_iff: "isFinite f \<longleftrightarrow> (\<exists>x. f = Finite x)"
  by (cases f) simp_all




lemma marshalFloats_finite: "list_all isFinite fs \<Longrightarrow> \<exists>js. marshalFloats fs = Inr js"
  by (induction fs) (auto simp: isFinite_iff)





lemma encodable_marshal: "encodable l \<Longrightarrow> \<exists>j. marshalLocation l = Inr j"
proof -
  assume a: "encodable l"
  then obtain js where js: "marshalFloats (Embedding l) = Inr js"
    using marshalFloats_finite by (auto simp: encodable_def)
  from a show ?thesis
    by (auto simp: encodable_def isFinite_iff marshalLocation_def marshalGeoPoint_def
        marshalDemographics_def js)
qed

lemma asFloat_finite: "asFloat jo = Some f \<Longrightarrow> isFinite f"
  by (cases jo rule: asFloat.cases) auto

lemma those_map_Some:
  "those (map f xs) = Some ys \<Longrightarrow> \<forall>y \<in> set ys. \<exists>x \<in> set xs. f x = Some y"
proof (induction xs arbitrary: ys)
  case Nil
  then show ?case by simp
next
  case (Cons x xs)
  from Cons.prems obtain y zs where
    y: "f x = Some y" and zs: "those (map f xs) = Some zs" and e: "ys = y # zs"
    by (auto split: option.splits)
  have "\<forall>z \<in> set zs. \<exists>x' \<in> set xs. f x' = Some z"
    by (rule Cons.IH [OF zs])
  then show ?case
    using y e by auto
qed

lemma asFloats_finite: "asFloats jo = Some fs \<Longrightarrow> list_all isFinite fs"
proof (cases jo rule: asFloats.cases)
  case (3 xs)
  assume "asFloats jo = Some fs"
  then have "those (map (\<lambda>x. asFloat (Some x)) xs) = Some fs"
    using 3 by simp
  then have "\<forall>y \<in> set fs. \<exists>x \<in> set xs. asFloat (Some x) = Some y"
    by (rule those_map_Some)
  then show ?thesis
    by (auto simp: list_all_iff dest: asFloat_finite)
qed auto

lemma unmarshalGeoPoint_finite:
  "unmarshalGeoPoint jo = Some g \<Longrightarrow> isFinite (Lat g) \<and> isFinite (Lon g)"
  by (cases jo rule: unmarshalGeoPoint.cases)
     (auto simp: zeroGeoPoint_def unmarshalGeoPointFields_def bind_eq_Some_conv
        dest: asFloat_finite)

lemma unmarshalDemographics_finite:
  "unmarshalDemographics jo = Some d \<Longrightarrow>
     isFinite (AverageIncome d) \<and> isFinite (PopulationDensity d)"
  by (cases jo rule: unmarshalDemographics.cases)
     (auto simp: zeroDemographics_def unmarshalDemographicsFields_def bind_eq_Some_conv
        dest: asFloat_finite)

lemma encodable_zeroLocation: "encodable zeroLocation"
  by (simp add: encodable_def zeroLocation_def zeroGeoPoint_def zeroDemographics_def)

lemma unmarshalLocation_encodable:
  assumes "unmarshalLocation jo = Some l"
  shows "encodable l"
proof (cases jo rule: unmarshalLocation.cases)
  case (3 kvs)
  with assms have "unmarshalLocationFields kvs = Some l"
    by simp
  then obtain g t c d e s where
    "unmarshalGeoPoint (map_of kvs ''coordinates'') = Some g"
    "asFloat (map_of kvs ''traffic_score'') = Some t"
    "asFloat (map_of kvs ''competition_density'') = Some c"
    "unmarshalDemographics (map_of kvs ''demographics'') = Some d"
    "asFloats (map_of kvs ''embedding'') = Some e"
    "asFloat (map_of kvs ''score'') = Some s"
    "Coordinates l = g" "TrafficScore l = t" "CompetitionDensity l = c"
    "LocDemographics l = d" "Embedding l = e" "Score l = s"
    by (auto simp: unmarshalLocationFields_def bind_eq_Some_conv)
  then show ?thesis
    using unmarshalGeoPoint_finite unmarshalDemographics_finite asFloat_finite asFloats_finite
    by (simp add: encodable_def)
qed (use assms encodable_zeroLocation in auto)

lemma encodable_Score: "encodable l \<Longrightarrow> isFinite s \<Longrightarrow> encodable (l\<lparr>Score := s\<rparr>)"
  by (simp add: encodable_def)

lemma marshalLocations_encodable:
  "\<forall>l \<in> set ls. encodable l \<Longrightarrow> \<exists>js. marshalLocations ls = Inr js"
proof (induction ls)
  case Nil
  then show ?case by simp
next
  case (Cons l ls)
  then obtain j js where "marshalLocation l = Inr j" "marshalLocations ls = Inr js"
    using encodable_marshal by fastforce
  then show ?case by simp
qed

lemma collectLocations_foldl:
  "foldl (\<lambda>locations hit. locations @ [(HitSource hit)\<lparr>Score := HitScore hit\<rparr>]) acc hits
     = acc @ map (\<lambda>hit. (HitSource hit)\<lparr>Score := HitScore hit\<rparr>) hits"
  by (induction hits arbitrary: acc) simp_all

lemma collectLocations_map:
  "collectLocations hits = map (\<lambda>hit. (HitSource hit)\<lparr>Score := HitScore hit\<rparr>) hits"
  by (simp add: collectLocations_def collectLocations_foldl)

lemma RecommendLocations_sent:
  assumes "NewRequest T (SearchDocuments (baseURL es) (index es)
             (if Limit req = 0 then 20 else Limit req) (fst (buildRecommendQuery req))) = None"
  shows "calls (snd (snd (RecommendLocations T es req w))) =
           calls w @ [SearchDocuments (baseURL es) (index es)
             (if Limit req = 0 then 20 else Limit req) (fst (buildRecommendQuery req))]"
proof -
  obtain q r where b: "buildRecommendQuery req = (q, r)"
    by (cases "buildRecommendQuery req")
  have l: "Limit r = (if Limit req = 0 then 20 else Limit req)"
    using b by (auto simp: buildRecommendQuery_def Let_def)
  obtain x s' where
    d: "Do T (SearchDocuments (baseURL es) (index es) (Limit r) q) (engine w) = (x, s')"
    by (cases "Do T (SearchDocuments (baseURL es) (index es) (Limit r) q) (engine w)")
  from assms b l
  have n: "NewRequest T (SearchDocuments (baseURL es) (index es) (Limit r) q) = None"
    by simp
  show ?thesis
    using b n d l
    by (simp add: RecommendLocations_def httpDo_def Let_def split: sum.splits)
qed

lemma RecommendLocations_answer:
  assumes "buildRecommendQuery req = (q, r)"
    and "NewRequest T (SearchDocuments (baseURL es) (index es) (Limit r) q) = None"
    and "Do T (SearchDocuments (baseURL es) (index es) (Limit r) q) (engine w) = (Inr res, s')"
    and "StatusCode res < 400"
    and "decodeSearchResult (BodyJSON res) = Inr result"
  shows "fst (RecommendLocations T es req w) = Inr (collectLocations (Hits result))"
  using assms by (simp add: RecommendLocations_def httpDo_def Let_def)


lemma GetLocation_404:
  assumes "NewRequest T (GetDocument (baseURL es) (index es) docID) = None"
    and "Do T (GetDocument (baseURL es) (index es) docID) (engine w) = (Inr res, s')"
    and "StatusCode res = 404"
  shows "fst (GetLocation T es docID w) = Inl (Errorf ''location not found'')"
  using assms by (simp add: GetLocation_def httpDo_def Let_def)

lemma GetLocation_not_found_body:
  assumes "NewRequest T (GetDocument (baseURL es) (index es) docID) = None"
    and "Do T (GetDocument (baseURL es) (index es) docID) (engine w) = (Inr res, s')"
    and "StatusCode res < 400"
    and "decodeGetResult (BodyJSON res) = Inr result"
    and "\<not> Found result"
  shows "fst (GetLocation T es docID w) = Inl (Errorf ''location not found'')"
  using assms by (simp add: GetLocation_def httpDo_def Let_def)

lemma buildRecommendQuery_defaulted:
  "buildRecommendQuery (if Limit req = 0 then req\<lparr>Limit := 20\<rparr> else req) =
     (fst (buildRecommendQuery req), if Limit req = 0 then req\<lparr>Limit := 20\<rparr> else req)"
  by (simp add: buildRecommendQuery_def Let_def)

lemma decodeSearchResult_finite:
  assumes "decodeSearchResult b = Inr result"
  shows "\<forall>h \<in> set (Hits result). encodable (HitSource h) \<and> isFinite (HitScore h)"
proof -
  have hit: "encodable (HitSource h) \<and> isFinite (HitScore h)" if "unmarshalHit j = Some h" for j h
  proof (cases j)
    case JNull
    then show ?thesis using that encodable_zeroLocation by auto
  next
    case (JObject kvs)
    then show ?thesis
      using that
      by (auto simp: unmarshalHitFields_def bind_eq_Some_conv
          dest: unmarshalLocation_encodable asFloat_finite)
  qed (use that in auto)
  have lst: "\<forall>h \<in> set hs. encodable (HitSource h) \<and> isFinite (HitScore h)"
    if "unmarshalHitList jo = Some hs" for jo hs
  proof (cases jo rule: unmarshalHitList.cases)
    case (3 xs)
    then have "those (map unmarshalHit xs) = Some hs"
      using that by simp
    then have "\<forall>h \<in> set hs. \<exists>x \<in> set xs. unmarshalHit x = Some h"
      by (rule those_map_Some)
    then show ?thesis using hit by blast
  qed (use that in auto)
  have hits: "\<forall>h \<in> set (Hits r). encodable (HitSource h) \<and> isFinite (HitScore h)"
    if u: "unmarshalHits jo = Some r" for jo r
  proof (cases jo rule: unmarshalHits.cases)
    case (3 kvs)
    then obtain hs where "unmarshalHitList (map_of kvs ''hits'') = Some hs" "Hits r = hs"
      using u by (auto simp: unmarshalHitsFields_def bind_eq_Some_conv)
    then show ?thesis using lst by blast
  qed (use u in auto)
  from assms obtain j where j: "b = Inr j" "unmarshalSearchResult j = Some result"
    by (auto simp: decodeSearchResult_def split: sum.splits option.splits)
  show ?thesis
  proof (cases j)
    case JNull
    then show ?thesis using j by auto
  next
    case (JObject kvs)
    then show ?thesis using j hits by auto
  qed (use j in auto)
qed

lemma marshalRecommendResponse_collected:
  assumes "decodeSearchResult b = Inr result"
  shows "\<exists>encoded. marshalRecommendResponse
           \<lparr>Locations = collectLocations (Hits result),
            Total = int (length (collectLocations (Hits result)))\<rparr> = Inr encoded"
proof -
  have "\<forall>l \<in> set (collectLocations (Hits result)). encodable l"
    using decodeSearchResult_finite [OF assms]
    by (auto simp: collectLocations_map encodable_Score)
  then obtain js where "marshalLocations (collectLocations (Hits result)) = Inr js"
    using marshalLocations_encodable by blast
  then show ?thesis
    by (simp add: marshalRecommendResponse_def)
qed

lemma decode_twoHits: "decodeSearchResult (BodyJSON twoHits) = Inr twoHitsResult"
  by (simp add: twoHits_def hitA_def hitB_def decodeSearchResult_def unmarshalHitsFields_def
      unmarshalHitFields_def unmarshalLocationFields_def zeroLocation_def twoHitsResult_def
      locA_def locB_def)

lemma decode_unsortedHits: "decodeSearchResult (BodyJSON unsortedHits) = Inr unsortedHitsResult"
  by (simp add: unsortedHits_def decodeSearchResult_def unmarshalHitsFields_def
      unmarshalHitFields_def unmarshalLocationFields_def zeroLocation_def
      unsortedHitsResult_def)

lemma Handlers_RecommendLocations_world:
  assumes "Region req \<noteq> ''''" and "BusinessType req \<noteq> ''''"
  shows "snd (Handlers_RecommendLocations T es ''POST'' (Inr req) w) =
           snd (snd (RecommendLocations T es
                  (if Limit req = 0 then req\<lparr>Limit := 20\<rparr> else req) w))"
proof -
  let ?req = "if Limit req = 0 then req\<lparr>Limit := 20\<rparr> else req"
  obtain r rq w' where c: "RecommendLocations T es ?req w = (r, rq, w')"
    by (cases "RecommendLocations T es ?req w")
  show ?thesis
    using assms c
    by (cases r) (simp_all add: Handlers_RecommendLocations_def Let_def split: sum.splits)
qed

lemma Handlers_RecommendLocations_sent:
  assumes "Region req \<noteq> ''''" and "BusinessType req \<noteq> ''''"
    and "NewRequest T (SearchDocuments (baseURL es) (index es)
           (if Limit req = 0 then 20 else Limit req) (fst (buildRecommendQuery req))) = None"
  shows "calls (snd (Handlers_RecommendLocations T es ''POST'' (Inr req) w)) =
           calls w @ [SearchDocuments (baseURL es) (index es)
             (if Limit req = 0 then 20 else Limit req) (fst (buildRecommendQuery req))]"
proof -
  let ?req = "if Limit req = 0 then req\<lparr>Limit := 20\<rparr> else req"
  have q: "fst (buildRecommendQuery ?req) = fst (buildRecommendQuery req)"
    by (simp only: buildRecommendQuery_defaulted fst_conv)
  have l: "(if Limit ?req = 0 then 20 else Limit ?req) = (if Limit req = 0 then 20 else Limit req)"
    by simp
  have "calls (snd (snd (RecommendLocations T es ?req w))) =
          calls w @ [SearchDocuments (baseURL es) (index es)
            (if Limit ?req = 0 then 20 else Limit ?req) (fst (buildRecommendQuery ?req))]"
    by (rule RecommendLocations_sent) (use assms(3) in \<open>simp only: q l\<close>)
  then show ?thesis
    by (simp only: Handlers_RecommendLocations_world [OF assms(1,2)] q l)
qed

lemma Handlers_RecommendLocations_answer:
  assumes "Region req \<noteq> ''''" and "BusinessType req \<noteq> ''''"
    and "NewRequest T (SearchDocuments (baseURL es) (index es)
           (if Limit req = 0 then 20 else Limit req) (fst (buildRecommendQuery req))) = None"
    and "Do T (SearchDocuments (baseURL es) (index es)
           (if Limit req = 0 then 20 else Limit req) (fst (buildRecommendQuery req))) (engine w)
           = (Inr res, s')"
    and "StatusCode res < 400"
    and "decodeSearchResult (BodyJSON res) = Inr result"
  shows "fst (Handlers_RecommendLocations T es ''POST'' (Inr req) w) =
           HttpJSON \<lparr>Locations = map (\<lambda>hit. (HitSource hit)\<lparr>Score := HitScore hit\<rparr>) (Hits result),
                     Total = int (length (Hits result))\<rparr>"
proof -
  let ?req = "if Limit req = 0 then req\<lparr>Limit := 20\<rparr> else req"
  have l: "Limit ?req = (if Limit req = 0 then 20 else Limit req)"
    by simp
  have r: "fst (RecommendLocations T es ?req w) = Inr (collectLocations (Hits result))"
    by (rule RecommendLocations_answer [OF buildRecommendQuery_defaulted])
       (use assms in \<open>simp_all only: l\<close>)
  obtain rq w' where
    c: "RecommendLocations T es ?req w = (Inr (collectLocations (Hits result)), rq, w')"
    using r by (cases "RecommendLocations T es ?req w") auto
  obtain encoded where
    m: "marshalRecommendResponse
          \<lparr>Locations = collectLocations (Hits result),
           Total = int (length (collectLocations (Hits result)))\<rparr> = Inr encoded"
    using marshalRecommendResponse_collected [OF assms(6)] by blast
  have "fst (Handlers_RecommendLocations T es ''POST'' (Inr req) w) =
          HttpJSON \<lparr>Locations = collectLocations (Hits result),
                    Total = int (length (collectLocations (Hits result)))\<rparr>"
    using assms(1,2) c m
    by (simp add: Handlers_RecommendLocations_def Let_def)
  then show ?thesis
    by (simp add: collectLocations_map)
qed

lemma Handlers_RecommendLocations_json:
  assumes a: "fst (Handlers_RecommendLocations T es method body w) = HttpJSON resp"
  shows "Total resp = int (length (Locations resp))
         \<and> (\<exists>req. body = Inr req
               \<and> fst (RecommendLocations T es
                        (if Limit req = 0 then req\<lparr>Limit := 20\<rparr> else req) w)
                   = Inr (Locations resp))"
proof -
  have m: "method = ''POST''"
  proof (rule ccontr)
    assume "method \<noteq> ''POST''"
    then show False using a by (simp add: Handlers_RecommendLocations_def)
  qed
  obtain req where b: "body = Inr req"
  proof (cases body)
    case (Inl err)
    then show ?thesis using a m by (simp add: Handlers_RecommendLocations_def)
  next
    case (Inr req)
    then show ?thesis using that by simp
  qed
  have v: "\<not> (Region req = '''' \<or> BusinessType req = '''')"
  proof
    assume "Region req = '''' \<or> BusinessType req = ''''"
    then show False using a m b by (simp add: Handlers_RecommendLocations_def)
  qed
  let ?req = "if Limit req = 0 then req\<lparr>Limit := 20\<rparr> else req"
  obtain r rq w' where c: "RecommendLocations T es ?req w = (r, rq, w')"
    by (cases "RecommendLocations T es ?req w")
  have h: "fst (Handlers_RecommendLocations T es method body w) =
             (case r of
                Inl err \<Rightarrow> HttpError ''Internal server error'' 500
              | Inr locations \<Rightarrow>
                  (case marshalRecommendResponse
                          \<lparr>Locations = locations, Total = int (length locations)\<rparr> of
                     Inl err \<Rightarrow> HttpError ''Internal server error'' 500
                   | Inr encoded \<Rightarrow>
                       HttpJSON \<lparr>Locations = locations, Total = int (length locations)\<rparr>))"
    using m b v c by (simp add: Handlers_RecommendLocations_def Let_def split: sum.splits)
  show ?thesis
  proof (cases r)
    case (Inl err)
    then show ?thesis using a h by simp
  next
    case (Inr locations)
    then have "resp = \<lparr>Locations = locations, Total = int (length locations)\<rparr>"
      using a h by (simp split: sum.splits)
    then show ?thesis using b c Inr by simp
  qed
qed


lemma decode_not_found_body:
  "decodeGetResult (Inr (JObject [(''found'', JBool False)]))
     = Inr \<lparr>Found = False, Source = zeroLocation\<rparr>"
  by (simp add: decodeGetResult_def unmarshalGetResultFields_def)











lemma rankedBefore_collected:
  "sorted_wrt rankedBefore (collectLocations hits) = sorted_wrt hitBefore hits"
proof -
  have "hitBefore = (\<lambda>a b. rankedBefore ((HitSource a)\<lparr>Score := HitScore a\<rparr>)
                                         ((HitSource b)\<lparr>Score := HitScore b\<rparr>))"
    by (intro ext) (simp add: hitBefore_def rankedBefore_def)
  then show ?thesis
    by (simp add: collectLocations_map sorted_wrt_map)
qed

lemma sort_of_build:
  "member (fst (buildRecommendQuery req)) ''sort'' = Some (JArray
     [JObject [(''_score'', JObject [(''order'', JString ''desc'')])],
      JObject [(''traffic_score'', JObject [(''order'', JString ''desc'')])],
      JObject [(''competition_density'', JObject [(''order'', JString ''asc'')])]])"
  by (simp add: buildRecommendQuery_def Let_def)


section \<open>The query builder's filters, boosts and effect on the request\<close>

text \<open>
  Claim C1. The mandatory clauses of the built query are, in this order, one term clause
  on \<open>region\<close>, one on \<open>city\<close> and one on \<open>business_types_suitable\<close>, each present
  exactly when the request's field is a non-empty string and bound to that field's
  value. So a request with all three non-empty has exactly three mandatory clauses, one
  per field, and a request with an empty city has no clause that binds \<open>city\<close>.
\<close>

theorem buildRecommendQuery_must:
  "mustOf (fst (buildRecommendQuery req)) =
     (if Region req \<noteq> '''' then [termClause ''region'' (Region req)] else []) @
     (if City req \<noteq> '''' then [termClause ''city'' (City req)] else []) @
     (if BusinessType req \<noteq> ''''
      then [termClause ''business_types_suitable'' (BusinessType req)] else [])
   \<and> (Region req \<noteq> '''' \<and> City req \<noteq> '''' \<and> BusinessType req \<noteq> '''' \<longrightarrow>
        length (mustOf (fst (buildRecommendQuery req))) = 3
        \<and> map termFields (mustOf (fst (buildRecommendQuery req))) =
            [[''region''], [''city''], [''business_types_suitable'']])
   \<and> (City req = '''' \<longrightarrow>
        (\<forall>c \<in> set (mustOf (fst (buildRecommendQuery req))). ''city'' \<notin> set (termFields c)))"
  unfolding must_of_build by (auto simp: termClause_def)

theorem buildRecommendQuery_must_witness:
  "mustOf (fst (buildRecommendQuery
       \<lparr>Region = ''Moscow'', City = ''Moscow'', BusinessType = ''cafe'', Limit = 5\<rparr>))
     = [termClause ''region'' ''Moscow'', termClause ''city'' ''Moscow'',
        termClause ''business_types_suitable'' ''cafe'']
   \<and> length (mustOf (fst (buildRecommendQuery
       \<lparr>Region = ''Moscow'', City = ''Moscow'', BusinessType = ''cafe'', Limit = 5\<rparr>))) = 3
   \<and> mustOf (fst (buildRecommendQuery
       \<lparr>Region = ''Moscow'', City = '''', BusinessType = ''cafe'', Limit = 5\<rparr>))
     = [termClause ''region'' ''Moscow'', termClause ''business_types_suitable'' ''cafe'']"
  using buildRecommendQuery_must
          [of "\<lparr>Region = ''Moscow'', City = ''Moscow'', BusinessType = ''cafe'', Limit = 5\<rparr>"]
        buildRecommendQuery_must
          [of "\<lparr>Region = ''Moscow'', City = '''', BusinessType = ''cafe'', Limit = 5\<rparr>"]
  by simp

text \<open>
  Claim C2. Whatever the request holds, the built query has exactly two optional
  (should) clauses: a range clause on \<open>traffic_score\<close> with \<open>gte\<close> 7.0 and boost 2.0, and
  a range clause on \<open>competition_density\<close> with \<open>lte\<close> 3.0 and boost 1.5; and its
  \<open>minimum_should_match\<close> is 0.
\<close>

theorem buildRecommendQuery_should:
  "shouldOf (fst (buildRecommendQuery req)) =
     [rangeBoost ''traffic_score'' ''gte'' 7 2,
      rangeBoost ''competition_density'' ''lte'' 3 (3 / 2)]
   \<and> length (shouldOf (fst (buildRecommendQuery req))) = 2
   \<and> path (fst (buildRecommendQuery req)) [''query'', ''bool'', ''minimum_should_match'']
       = Some (JNumber 0)"
  by (simp add: buildRecommendQuery_def shouldOf_def rangeBoost_def Let_def)

theorem buildRecommendQuery_should_witness:
  "shouldOf (fst (buildRecommendQuery
       \<lparr>Region = '''', City = '''', BusinessType = '''', Limit = 0\<rparr>)) =
     [rangeBoost ''traffic_score'' ''gte'' 7 2,
      rangeBoost ''competition_density'' ''lte'' 3 (3 / 2)]"
  using buildRecommendQuery_should
          [of "\<lparr>Region = '''', City = '''', BusinessType = '''', Limit = 0\<rparr>"]
  by simp

text \<open>
  Claim C8, as the code has it. The builder takes no transport and no world: it sends
  nothing. It leaves the region, the city and the business type of the request as they
  were, and a request whose limit is not zero is left unchanged in every field; but it
  writes 20 into the limit of a request whose limit is zero. The query it returns does
  not depend on the limit.
\<close>

theorem buildRecommendQuery_request_after:
  "Region (snd (buildRecommendQuery req)) = Region req
   \<and> City (snd (buildRecommendQuery req)) = City req
   \<and> BusinessType (snd (buildRecommendQuery req)) = BusinessType req
   \<and> Limit (snd (buildRecommendQuery req)) = (if Limit req = 0 then 20 else Limit req)
   \<and> (Limit req \<noteq> 0 \<longrightarrow> snd (buildRecommendQuery req) = req)
   \<and> fst (buildRecommendQuery (req\<lparr>Limit := n\<rparr>)) = fst (buildRecommendQuery req)"
  by (simp add: buildRecommendQuery_def Let_def)

theorem buildRecommendQuery_request_after_witness:
  "snd (buildRecommendQuery
       \<lparr>Region = ''Moscow'', City = '''', BusinessType = ''cafe'', Limit = 5\<rparr>)
     = \<lparr>Region = ''Moscow'', City = '''', BusinessType = ''cafe'', Limit = 5\<rparr>"
  using buildRecommendQuery_request_after
          [of "\<lparr>Region = ''Moscow'', City = '''', BusinessType = ''cafe'', Limit = 5\<rparr>"]
  by simp

text \<open>
  Claim C8 as the specification states it (the request is left unchanged in every field)
  fails for a request whose limit is zero: after the call its limit is 20.
\<close>

theorem buildRecommendQuery_changes_request:
  "snd (buildRecommendQuery
       \<lparr>Region = ''Moscow'', City = '''', BusinessType = ''cafe'', Limit = 0\<rparr>)
     \<noteq> \<lparr>Region = ''Moscow'', City = '''', BusinessType = ''cafe'', Limit = 0\<rparr>
   \<and> Limit (snd (buildRecommendQuery
       \<lparr>Region = ''Moscow'', City = '''', BusinessType = ''cafe'', Limit = 0\<rparr>)) = 20"
  by (simp add: buildRecommendQuery_def Let_def)

section \<open>Ranking order\<close>

text \<open>
  Claim C3, as the code has it. The built query's sort is, in exactly this sequence,
  relevance score descending, traffic-affinity score descending, competition-density
  score ascending. The client does not order the hits itself: when the engine answers
  the search, \<open>RecommendLocations\<close> returns, for each hit and in the order of the hits,
  the hit's document with the hit's relevance score written into it. So the result set
  is ordered by relevance score descending, then traffic-affinity score descending,
  then competition-density score ascending, exactly when the engine's hits are.
\<close>

theorem recommend_sort_order:
  "member (fst (buildRecommendQuery req)) ''sort'' = Some (JArray
     [JObject [(''_score'', JObject [(''order'', JString ''desc'')])],
      JObject [(''traffic_score'', JObject [(''order'', JString ''desc'')])],
      JObject [(''competition_density'', JObject [(''order'', JString ''asc'')])]])
   \<and> (NewRequest T (SearchDocuments (baseURL es) (index es)
          (Limit (snd (buildRecommendQuery req))) (fst (buildRecommendQuery req))) = None
       \<and> Do T (SearchDocuments (baseURL es) (index es)
          (Limit (snd (buildRecommendQuery req))) (fst (buildRecommendQuery req))) (engine w)
           = (Inr res, s')
       \<and> StatusCode res < 400
       \<and> decodeSearchResult (BodyJSON res) = Inr result
       \<longrightarrow> fst (RecommendLocations T es req w)
             = Inr (map (\<lambda>hit. (HitSource hit)\<lparr>Score := HitScore hit\<rparr>) (Hits result))
           \<and> (sorted_wrt rankedBefore
                 (map (\<lambda>hit. (HitSource hit)\<lparr>Score := HitScore hit\<rparr>) (Hits result))
               \<longleftrightarrow> sorted_wrt hitBefore (Hits result)))"
proof (intro conjI impI)
  show "member (fst (buildRecommendQuery req)) ''sort'' = Some (JArray
     [JObject [(''_score'', JObject [(''order'', JString ''desc'')])],
      JObject [(''traffic_score'', JObject [(''order'', JString ''desc'')])],
      JObject [(''competition_density'', JObject [(''order'', JString ''asc'')])]])"
    by (rule sort_of_build)
next
  assume a: "NewRequest T (SearchDocuments (baseURL es) (index es)
          (Limit (snd (buildRecommendQuery req))) (fst (buildRecommendQuery req))) = None
       \<and> Do T (SearchDocuments (baseURL es) (index es)
          (Limit (snd (buildRecommendQuery req))) (fst (buildRecommendQuery req))) (engine w)
           = (Inr res, s')
       \<and> StatusCode res < 400
       \<and> decodeSearchResult (BodyJSON res) = Inr result"
  have b: "buildRecommendQuery req = (fst (buildRecommendQuery req), snd (buildRecommendQuery req))"
    by simp
  have a1: "NewRequest T (SearchDocuments (baseURL es) (index es)
          (Limit (snd (buildRecommendQuery req))) (fst (buildRecommendQuery req))) = None"
    and a2: "Do T (SearchDocuments (baseURL es) (index es)
          (Limit (snd (buildRecommendQuery req))) (fst (buildRecommendQuery req))) (engine w)
           = (Inr res, s')"
    and a3: "StatusCode res < 400"
    and a4: "decodeSearchResult (BodyJSON res) = Inr result"
    using a by simp_all
  have "fst (RecommendLocations T es req w) = Inr (collectLocations (Hits result))"
    by (rule RecommendLocations_answer [OF b a1 a2 a3 a4])
  then show "fst (RecommendLocations T es req w)
             = Inr (map (\<lambda>hit. (HitSource hit)\<lparr>Score := HitScore hit\<rparr>) (Hits result))"
    by (simp add: collectLocations_map)
next
  show "sorted_wrt rankedBefore
          (map (\<lambda>hit. (HitSource hit)\<lparr>Score := HitScore hit\<rparr>) (Hits result))
        \<longleftrightarrow> sorted_wrt hitBefore (Hits result)"
    using rankedBefore_collected [of "Hits result"] by (simp add: collectLocations_map)
qed

theorem recommend_sort_order_witness:
  "fst (RecommendLocations (answering twoHits) locationsIndex cafeInMoscow idle)
     = Inr [locA\<lparr>Score := Finite 3\<rparr>, locB\<lparr>Score := Finite 3\<rparr>]
   \<and> sorted_wrt rankedBefore [locA\<lparr>Score := Finite 3\<rparr>, locB\<lparr>Score := Finite 3\<rparr>]"
proof -
  have h1: "NewRequest (answering twoHits) rq = None" for rq
    by (simp add: answering_def)
  have h2: "Do (answering twoHits) rq (engine idle) = (Inr twoHits, ())" for rq
    by (simp add: answering_def)
  have h3: "StatusCode twoHits < 400"
    by (simp add: twoHits_def)
  have h5: "sorted_wrt hitBefore (Hits twoHitsResult)"
    by (simp add: twoHitsResult_def hitBefore_def locA_def locB_def)
  have h6: "map (\<lambda>hit. (HitSource hit)\<lparr>Score := HitScore hit\<rparr>) (Hits twoHitsResult)
              = [locA\<lparr>Score := Finite 3\<rparr>, locB\<lparr>Score := Finite 3\<rparr>]"
    by (simp add: twoHitsResult_def)
  show ?thesis
    using recommend_sort_order
            [where req = cafeInMoscow and T = "answering twoHits" and es = locationsIndex
               and w = idle and res = twoHits and s' = "()" and result = twoHitsResult]
          h1 h2 h3 decode_twoHits h5
    unfolding h6 by simp
qed

text \<open>
  Claim C3 as the specification states it (any result set returned by the search is
  ordered by relevance score descending) fails when the engine answers with hits that
  are not in that order: hits with scores 1 and then 7 are returned as they came.
\<close>

theorem recommend_returns_engine_order:
  "fst (RecommendLocations (answering unsortedHits) locationsIndex cafeInMoscow idle)
     = Inr [zeroLocation\<lparr>ID := ''a'', Score := Finite 1\<rparr>,
            zeroLocation\<lparr>ID := ''b'', Score := Finite 7\<rparr>]
   \<and> \<not> sorted_wrt rankedBefore
         [zeroLocation\<lparr>ID := ''a'', Score := Finite 1\<rparr>,
          zeroLocation\<lparr>ID := ''b'', Score := Finite 7\<rparr>]"
proof -
  have b: "buildRecommendQuery cafeInMoscow
             = (fst (buildRecommendQuery cafeInMoscow), snd (buildRecommendQuery cafeInMoscow))"
    by simp
  have h1: "NewRequest (answering unsortedHits) rq = None" for rq
    by (simp add: answering_def)
  have h2: "Do (answering unsortedHits) rq (engine idle) = (Inr unsortedHits, ())" for rq
    by (simp add: answering_def)
  have h3: "StatusCode unsortedHits < 400"
    by (simp add: unsortedHits_def)
  have r: "fst (RecommendLocations (answering unsortedHits) locationsIndex cafeInMoscow idle)
             = Inr (collectLocations (Hits unsortedHitsResult))"
    by (rule RecommendLocations_answer [OF b h1 h2 h3 decode_unsortedHits])
  have c: "collectLocations (Hits unsortedHitsResult)
             = [zeroLocation\<lparr>ID := ''a'', Score := Finite 1\<rparr>,
                zeroLocation\<lparr>ID := ''b'', Score := Finite 7\<rparr>]"
    by (simp add: collectLocations_map unsortedHitsResult_def)
  have n: "\<not> sorted_wrt rankedBefore
         [zeroLocation\<lparr>ID := ''a'', Score := Finite 1\<rparr>,
          zeroLocation\<lparr>ID := ''b'', Score := Finite 7\<rparr>]"
    by (simp add: rankedBefore_def)
  show ?thesis
    using r c n by simp
qed

section \<open>The recommendation handler\<close>

text \<open>
  Claim C4, as the code has it. For a request that passes validation, the \<open>size\<close> of the
  search request that is sent is 20 when the request's limit is zero (zero or absent
  in the JSON body) and the request's own limit otherwise; the handler substitutes the
  default before it calls the search client, and a request given to the search client
  directly gets the same substitution from the query builder.
\<close>

theorem recommend_effective_limit:
  "(Region req \<noteq> '''' \<and> BusinessType req \<noteq> ''''
      \<and> NewRequest T (SearchDocuments (baseURL es) (index es)
            (if Limit req = 0 then 20 else Limit req) (fst (buildRecommendQuery req))) = None
     \<longrightarrow> calls (snd (Handlers_RecommendLocations T es ''POST'' (Inr req) w)) =
           calls w @ [SearchDocuments (baseURL es) (index es)
             (if Limit req = 0 then 20 else Limit req) (fst (buildRecommendQuery req))])
   \<and> (NewRequest T (SearchDocuments (baseURL es) (index es)
            (if Limit req = 0 then 20 else Limit req) (fst (buildRecommendQuery req))) = None
     \<longrightarrow> calls (snd (snd (RecommendLocations T es req w))) =
           calls w @ [SearchDocuments (baseURL es) (index es)
             (if Limit req = 0 then 20 else Limit req) (fst (buildRecommendQuery req))])"
  using Handlers_RecommendLocations_sent [of req T es w] RecommendLocations_sent [of T es req w]
  by blast

theorem recommend_effective_limit_witness:
  "searchSizes (calls (snd (Handlers_RecommendLocations (failing connectionRefused)
      locationsIndex ''POST'' (Inr (cafeInMoscow\<lparr>Limit := 0\<rparr>)) idle))) = [20]"
proof -
  have n: "NewRequest (failing connectionRefused) rq = None" for rq
    by (simp add: failing_def)
  have f: "Region (cafeInMoscow\<lparr>Limit := 0\<rparr>) \<noteq> ''''"
          "BusinessType (cafeInMoscow\<lparr>Limit := 0\<rparr>) \<noteq> ''''"
    by (simp_all add: cafeInMoscow_def)
  show ?thesis
    using recommend_effective_limit
            [where req = "cafeInMoscow\<lparr>Limit := 0\<rparr>" and T = "failing connectionRefused"
               and es = locationsIndex and w = idle] n f
    by (simp add: idle_def)
qed

text \<open>
  Claim C4 as the specification states it (every limit less than or equal to zero is
  replaced with 20) fails for a negative limit: the limit -5 is sent as it is.
\<close>

theorem recommend_negative_limit_kept:
  "searchSizes (calls (snd (Handlers_RecommendLocations (failing connectionRefused)
      locationsIndex ''POST'' (Inr (cafeInMoscow\<lparr>Limit := - 5\<rparr>)) idle))) = [- 5]"
proof -
  have n: "NewRequest (failing connectionRefused) rq = None" for rq
    by (simp add: failing_def)
  have f: "Region (cafeInMoscow\<lparr>Limit := - 5\<rparr>) \<noteq> ''''"
          "BusinessType (cafeInMoscow\<lparr>Limit := - 5\<rparr>) \<noteq> ''''"
    by (simp_all add: cafeInMoscow_def)
  show ?thesis
    by (simp add: Handlers_RecommendLocations_sent [OF f n] idle_def)
qed

text \<open>
  Claim C5. A recommendation request whose region or business type is the empty string
  is answered with status 400, and the world is as it was: no request has been sent to
  the search engine and its state is untouched.
\<close>

theorem recommend_rejects_missing_fields:
  "Region req = '''' \<or> BusinessType req = '''' \<Longrightarrow>
     Handlers_RecommendLocations T es ''POST'' (Inr req) w
       = (HttpError ''Region and business_type are required'' 400, w)
     \<and> calls (snd (Handlers_RecommendLocations T es ''POST'' (Inr req) w)) = calls w"
  by (simp add: Handlers_RecommendLocations_def)

theorem recommend_rejects_missing_fields_witness:
  "Handlers_RecommendLocations (answering twoHits) locationsIndex ''POST''
       (Inr (cafeInMoscow\<lparr>BusinessType := ''''\<rparr>)) idle
     = (HttpError ''Region and business_type are required'' 400, idle)
   \<and> calls (snd (Handlers_RecommendLocations (answering twoHits) locationsIndex ''POST''
       (Inr (cafeInMoscow\<lparr>BusinessType := ''''\<rparr>)) idle)) = []"
  using recommend_rejects_missing_fields
          [where req = "cafeInMoscow\<lparr>BusinessType := ''''\<rparr>" and T = "answering twoHits"
             and es = locationsIndex and w = idle]
  by (simp add: idle_def)

text \<open>
  Claim C9. In every recommendation response the total is the length of the locations
  sequence, and that sequence is the one the search client returned, in its order. When
  the engine answers the search, the sequence holds one location per hit, in the order
  of the hits, and the total is the number of hits, whatever matching-set count
  (\<open>hits.total.value\<close>) the engine reports.
\<close>

theorem recommend_total:
  "(fst (Handlers_RecommendLocations T es verb body w) = HttpJSON resp \<longrightarrow>
      Total resp = int (length (Locations resp))
      \<and> (\<exists>req. body = Inr req
            \<and> fst (RecommendLocations T es
                     (if Limit req = 0 then req\<lparr>Limit := 20\<rparr> else req) w)
                = Inr (Locations resp)))
   \<and> (Region req \<noteq> '''' \<and> BusinessType req \<noteq> ''''
      \<and> NewRequest T (SearchDocuments (baseURL es) (index es)
            (if Limit req = 0 then 20 else Limit req) (fst (buildRecommendQuery req))) = None
      \<and> Do T (SearchDocuments (baseURL es) (index es)
            (if Limit req = 0 then 20 else Limit req) (fst (buildRecommendQuery req))) (engine w)
          = (Inr res, s')
      \<and> StatusCode res < 400
      \<and> decodeSearchResult (BodyJSON res) = Inr result
     \<longrightarrow> fst (Handlers_RecommendLocations T es ''POST'' (Inr req) w) =
           HttpJSON \<lparr>Locations = map (\<lambda>hit. (HitSource hit)\<lparr>Score := HitScore hit\<rparr>) (Hits result),
                     Total = int (length (Hits result))\<rparr>)"
proof (intro conjI impI)
  assume a: "fst (Handlers_RecommendLocations T es verb body w) = HttpJSON resp"
  show "Total resp = int (length (Locations resp))"
    using Handlers_RecommendLocations_json [OF a] by (rule conjunct1)
  show "\<exists>req. body = Inr req
            \<and> fst (RecommendLocations T es
                     (if Limit req = 0 then req\<lparr>Limit := 20\<rparr> else req) w)
                = Inr (Locations resp)"
    using Handlers_RecommendLocations_json [OF a] by (rule conjunct2)
next
  assume "Region req \<noteq> '''' \<and> BusinessType req \<noteq> ''''
      \<and> NewRequest T (SearchDocuments (baseURL es) (index es)
            (if Limit req = 0 then 20 else Limit req) (fst (buildRecommendQuery req))) = None
      \<and> Do T (SearchDocuments (baseURL es) (index es)
            (if Limit req = 0 then 20 else Limit req) (fst (buildRecommendQuery req))) (engine w)
          = (Inr res, s')
      \<and> StatusCode res < 400
      \<and> decodeSearchResult (BodyJSON res) = Inr result"
  then show "fst (Handlers_RecommendLocations T es ''POST'' (Inr req) w) =
           HttpJSON \<lparr>Locations = map (\<lambda>hit. (HitSource hit)\<lparr>Score := HitScore hit\<rparr>) (Hits result),
                     Total = int (length (Hits result))\<rparr>"
    using Handlers_RecommendLocations_answer [of req T es w res s' result] by blast
qed

theorem recommend_total_witness:
  "fst (Handlers_RecommendLocations (answering twoHits) locationsIndex ''POST''
          (Inr cafeInMoscow) idle)
     = HttpJSON \<lparr>Locations = [locA\<lparr>Score := Finite 3\<rparr>, locB\<lparr>Score := Finite 3\<rparr>], Total = 2\<rparr>
   \<and> Total \<lparr>Locations = [locA\<lparr>Score := Finite 3\<rparr>, locB\<lparr>Score := Finite 3\<rparr>], Total = 2\<rparr>
       = int (length (Locations
           \<lparr>Locations = [locA\<lparr>Score := Finite 3\<rparr>, locB\<lparr>Score := Finite 3\<rparr>], Total = 2\<rparr>))
   \<and> TotalValue twoHitsResult = 8"
proof -
  have h1: "NewRequest (answering twoHits) rq = None" for rq
    by (simp add: answering_def)
  have h2: "Do (answering twoHits) rq (engine idle) = (Inr twoHits, ())" for rq
    by (simp add: answering_def)
  have h3: "StatusCode twoHits < 400"
    by (simp add: twoHits_def)
  have f: "Region cafeInMoscow \<noteq> ''''" "BusinessType cafeInMoscow \<noteq> ''''"
    by (simp_all add: cafeInMoscow_def)
  have a:"fst (Handlers_RecommendLocations (answering twoHits) locationsIndex ''POST''
          (Inr cafeInMoscow) idle)
     = HttpJSON \<lparr>Locations = [locA\<lparr>Score := Finite 3\<rparr>, locB\<lparr>Score := Finite 3\<rparr>], Total = 2\<rparr>"
    using recommend_total
            [where req = cafeInMoscow and T = "answering twoHits" and es = locationsIndex
               and w = idle and res = twoHits and s' = "()" and result = twoHitsResult]
          h1 h2 h3 f decode_twoHits
    by (simp add: twoHitsResult_def)
  have t: "Total \<lparr>Locations = [locA\<lparr>Score := Finite 3\<rparr>, locB\<lparr>Score := Finite 3\<rparr>], Total = 2\<rparr>
       = int (length (Locations
           \<lparr>Locations = [locA\<lparr>Score := Finite 3\<rparr>, locB\<lparr>Score := Finite 3\<rparr>], Total = 2\<rparr>))"
    using recommend_total
            [where T = "answering twoHits" and es = locationsIndex and w = idle
               and verb = "''POST''" and body = "Inr cafeInMoscow"
               and resp = "\<lparr>Locations = [locA\<lparr>Score := Finite 3\<rparr>, locB\<lparr>Score := Finite 3\<rparr>], Total = 2\<rparr>"]
          a
    by blast
  show ?thesis
    using a t by (simp add: twoHitsResult_def)
qed

section \<open>Fetching a location\<close>

text \<open>
  Claim C10. \<open>GetLocation\<close> fails with the error \<open>location not found\<close>, and returns no
  location, both when the engine answers with status 404 and when it answers with a
  success status and a body that decodes with \<open>found\<close> false.
\<close>

theorem GetLocation_reports_not_found:
  "NewRequest T (GetDocument (baseURL es) (index es) docID) = None
   \<and> Do T (GetDocument (baseURL es) (index es) docID) (engine w) = (Inr res, s')
   \<and> (StatusCode res = 404
       \<or> (StatusCode res < 400 \<and> decodeGetResult (BodyJSON res) = Inr result
           \<and> \<not> Found result))
   \<longrightarrow> fst (GetLocation T es docID w) = Inl (Errorf ''location not found'')
       \<and> (\<forall>location. fst (GetLocation T es docID w) \<noteq> Inr location)"
proof (intro impI)
  assume a: "NewRequest T (GetDocument (baseURL es) (index es) docID) = None
   \<and> Do T (GetDocument (baseURL es) (index es) docID) (engine w) = (Inr res, s')
   \<and> (StatusCode res = 404
       \<or> (StatusCode res < 400 \<and> decodeGetResult (BodyJSON res) = Inr result
           \<and> \<not> Found result))"
  then have n: "NewRequest T (GetDocument (baseURL es) (index es) docID) = None"
    and d: "Do T (GetDocument (baseURL es) (index es) docID) (engine w) = (Inr res, s')"
    by simp_all
  from a consider "StatusCode res = 404"
    | "StatusCode res < 400" "decodeGetResult (BodyJSON res) = Inr result" "\<not> Found result"
    by blast
  then have "fst (GetLocation T es docID w) = Inl (Errorf ''location not found'')"
  proof cases
    case 1
    then show ?thesis by (rule GetLocation_404 [OF n d])
  next
    case 2
    then show ?thesis by (rule GetLocation_not_found_body [OF n d])
  qed
  then show "fst (GetLocation T es docID w) = Inl (Errorf ''location not found'')
       \<and> (\<forall>location. fst (GetLocation T es docID w) \<noteq> Inr location)"
    by simp
qed

theorem GetLocation_reports_not_found_witness:
  "fst (GetLocation (answering missing) locationsIndex ''loc-9'' idle)
     = Inl (Errorf ''location not found'')
   \<and> fst (GetLocation (answering notFoundBody) locationsIndex ''loc-9'' idle)
     = Inl (Errorf ''location not found'')"
proof -
  have n: "NewRequest (answering r) rq = None" for r rq
    by (simp add: answering_def)
  have d: "Do (answering r) rq (engine idle) = (Inr r, ())" for r rq
    by (simp add: answering_def)
  have s1: "StatusCode missing = 404"
    by (simp add: missing_def)
  have s2: "StatusCode notFoundBody < 400"
    by (simp add: notFoundBody_def)
  have b: "decodeGetResult (BodyJSON notFoundBody) = Inr \<lparr>Found = False, Source = zeroLocation\<rparr>"
    by (simp add: notFoundBody_def decode_not_found_body)
  have f: "\<not> Found \<lparr>Found = False, Source = zeroLocation\<rparr>"
    by simp
  show ?thesis
    using GetLocation_reports_not_found
            [where T = "answering missing" and es = locationsIndex and docID = "''loc-9''"
               and w = idle and res = missing and s' = "()"]
          GetLocation_reports_not_found
            [where T = "answering notFoundBody" and es = locationsIndex and docID = "''loc-9''"
               and w = idle and res = notFoundBody and s' = "()"
               and result = "\<lparr>Found = False, Source = zeroLocation\<rparr>"]
          n d s1 s2 b f
    by simp
qed



section \<open>Indexing a location and fetching it again\<close>




end
